theory Spec2Isabelle
  imports Main "HOL-Library.Word" "HOL-Library.Signed_Division"
begin

section \<open>Platform types and constants\<close>

text \<open>
  The library targets the ESP32 (Arduino core on ESP-IDF): \<^verbatim>\<open>int\<close> is 32 bits wide,
  and \<^verbatim>\<open>size_t\<close>, \<^verbatim>\<open>unsigned long\<close> and \<^verbatim>\<open>esp_ota_handle_t\<close> are unsigned 32-bit
  integers. Both are modelled as 32-bit words, whose arithmetic wraps around; a signed
  value is read with \<open>sint\<close>. An Arduino \<^verbatim>\<open>String\<close> is a sequence of 8-bit characters
  and is modelled as \<open>string\<close>, for text and for binary firmware data alike.
  A private member \<^verbatim>\<open>_name\<close> of the class is written \<open>m_name\<close>, a private method
  \<^verbatim>\<open>_name\<close> is written \<open>name\<close>.
\<close>

type_synonym u32 = "32 word"
type_synonym i32 = "32 word"
type_synonym esp_err = int
type_synonym partition = nat

definition ESP_OK :: esp_err where
  "ESP_OK = 0"

definition MQTT_OTA_BUFFSIZE :: u32 where
  "MQTT_OTA_BUFFSIZE = 1024"

definition MQTT_OTA_TIMEOUT_MS :: u32 where
  "MQTT_OTA_TIMEOUT_MS = 420000"

definition MQTT_OTA_MAX_CHUNK_SIZE :: u32 where
  "MQTT_OTA_MAX_CHUNK_SIZE = 65536"

definition MQTT_OTA_MAX_RETRIES :: i32 where
  "MQTT_OTA_MAX_RETRIES = 3"

text \<open>
  Division of two \<^verbatim>\<open>int\<close>s truncates towards zero; a zero divisor is undefined behaviour
  in C++ and raises the integer-divide-by-zero exception on the target, so it has no
  result here. The remainder takes the sign of the dividend.
\<close>

definition c_div :: "i32 \<Rightarrow> i32 \<Rightarrow> i32 option" where
  "c_div a b = (if b = 0 then None else Some (word_of_int (sint a sdiv sint b)))"

definition c_rem :: "i32 \<Rightarrow> i32 \<Rightarrow> i32" where
  "c_rem a b = word_of_int (sint a smod sint b)"

section \<open>Data model (MQTTOTA.h)\<close>

datatype OTAState =
    OTA_STATE_IDLE
  | OTA_STATE_RECEIVING
  | OTA_STATE_DECODING
  | OTA_STATE_VALIDATING
  | OTA_STATE_WRITING
  | OTA_STATE_COMPLETING
  | OTA_STATE_SUCCESS
  | OTA_STATE_ERROR
  | OTA_STATE_ABORTED

text \<open>\<^verbatim>\<open>struct OTAContext\<close>. A null \<^verbatim>\<open>update_partition\<close> pointer is \<open>None\<close>.\<close>

record OTAContext =
  inProgress :: bool
  firmwareVersion :: string
  currentPart :: i32
  totalParts :: i32
  startTime :: u32
  receivedSize :: u32
  update_handle :: u32
  update_partition :: "partition option"
  state :: OTAState
  retryCount :: i32
  maxRetries :: i32
  partitionName :: string
  rollbackEnabled :: bool
  versionCheckEnabled :: bool

text \<open>
  \<^verbatim>\<open>struct OTAChunkData\<close>; its fields carry the prefix \<open>chunk_\<close>. The members
  \<^verbatim>\<open>checksum\<close> and \<^verbatim>\<open>decodedSize\<close> are never written or read and are left out.
\<close>

record OTAChunkData =
  chunk_firmwareVersion :: string
  chunk_base64Part :: string
  chunk_partIndex :: i32
  chunk_totalParts :: i32
  chunk_isError :: bool
  chunk_errorMessage :: string

text \<open>
  An inbound message after \<^verbatim>\<open>deserializeJson\<close> (ArduinoJson, an external library):
  either the parse failed, or there is a document. \<open>EventType\<close> is the string stored
  under that key, if any. Each field of \<open>Details\<close> holds what the accessor used by
  the source yields for the key (the accessor's default when the key is absent).
\<close>

record Details =
  FirmwareVersion :: string
  Base64Part :: string
  PartIndex :: i32
  TotalParts :: i32
  IsError :: bool
  ErrorMessage :: string
  Base64 :: string

datatype json =
    JsonError
  | JsonDoc "string option" "Details option"

text \<open>
  The error texts handed to \<^verbatim>\<open>_publishError\<close>, one constructor per literal of the
  source; an argument is the part of the text computed at run time (the sender's
  message, or the driver's error code that \<^verbatim>\<open>esp_err_to_name\<close> renders).
\<close>

datatype ota_error =
    TimeoutOTA
  | TimeoutChunks
  | ChunkReported string
  | ChunkIncomplete
  | ChunkOutOfSequence
  | NoOTAPartition
  | BeginFailed esp_err
  | NotStarted
  | ChunkBase64Failed
  | BadHeaderFirstChunk
  | WriteChunkFailed esp_err
  | FirmwareTooSmall
  | EndFailed esp_err
  | SetBootFailed esp_err
  | UserAbort
  | InsufficientMemory
  | Base64Failed
  | BadHeader
  | WriteFailed esp_err
  | EmptyFirmwareData
  | FirmwareDataTooShort
  | InvalidBase64Format

text \<open>
  What an operation does to the outside world, in order: user callbacks, MQTT
  publications (topic and document; the \<^verbatim>\<open>timestamp\<close> member is left out), calls of the
  OTA driver that change it, the delay and the restart. Lines written to
  \<^verbatim>\<open>Serial\<close> are not recorded.
\<close>

datatype payload =
    ProgressDoc string string i32
  | ErrorDoc string string ota_error
  | SuccessDoc string string
  | StateDoc string OTAState

datatype effect =
    ProgressCallback i32 string
  | ErrorCallback ota_error string
  | SuccessCallback string
  | StateChangeCallback OTAState
  | MqttPublish string payload
  | EspOtaBegin partition
  | EspOtaWrite u32 string
  | EspOtaEnd u32
  | EspOtaSetBootPartition "partition option"
  | EspOtaAbort u32
  | Delay nat
  | EspRestart

text \<open>
  What the platform answers during one operation. \<open>millis\<close> is the clock as read by the
  chunked path (session start, chunked timeout test), \<open>millis_mono\<close> as read by the
  single-message path; \<open>ota_write k\<close> is the result of the \<open>k\<close>-th call of
  \<^verbatim>\<open>esp_ota_write\<close> in the operation; \<open>ota_begin\<close> is the result of \<^verbatim>\<open>esp_ota_begin\<close>
  and the handle it stores on success.
\<close>

record platform =
  freeHeap :: nat
  mallocOk :: bool
  mqttConnected :: bool
  millis :: u32
  millis_mono :: u32
  ota_next_update_partition :: "partition option"
  ota_begin :: "esp_err \<times> u32"
  ota_write :: "nat \<Rightarrow> esp_err"
  ota_end :: esp_err
  ota_set_boot_partition :: esp_err

text \<open>
  \<^verbatim>\<open>class MQTTOTA\<close>. A callback member is \<open>True\<close> when a callable is registered.
  \<open>effects\<close> is the trace of the object's effects so far, oldest first.
\<close>

record MQTTOTA =
  m_deviceName :: string
  m_firmwareVersion :: string
  m_deviceID :: string
  m_otaTopic :: string
  m_otaContext :: OTAContext
  m_progressCallback :: bool
  m_errorCallback :: bool
  m_successCallback :: bool
  m_stateChangeCallback :: bool
  m_publishMQTT :: bool
  m_isMQTTConnected :: bool
  m_chunkedOTAEnabled :: bool
  m_autoReset :: bool
  m_chunkSize :: u32
  m_otaInProgress :: bool
  m_otaStartTime :: u32
  m_currentFirmwareVersion :: string
  m_currentProgress :: i32
  effects :: "effect list"

definition emit :: "effect \<Rightarrow> MQTTOTA \<Rightarrow> MQTTOTA" where
  "emit e s = s\<lparr>effects := effects s @ [e]\<rparr>"

definition ctx_update :: "(OTAContext \<Rightarrow> OTAContext) \<Rightarrow> MQTTOTA \<Rightarrow> MQTTOTA" where
  "ctx_update f s = s\<lparr>m_otaContext := f (m_otaContext s)\<rparr>"

text \<open>The constructor, with the default member initialisers of the header.\<close>

definition new_MQTTOTA :: "string \<Rightarrow> MQTTOTA" where
  "new_MQTTOTA deviceID =
     \<lparr>m_deviceName = [], m_firmwareVersion = [], m_deviceID = deviceID, m_otaTopic = [],
      m_otaContext =
        \<lparr>inProgress = False, firmwareVersion = [], currentPart = 0, totalParts = 0,
         startTime = 0, receivedSize = 0, update_handle = 0, update_partition = None,
         state = OTA_STATE_IDLE, retryCount = 0, maxRetries = MQTT_OTA_MAX_RETRIES,
         partitionName = [], rollbackEnabled = True, versionCheckEnabled = True\<rparr>,
      m_progressCallback = False, m_errorCallback = False, m_successCallback = False,
      m_stateChangeCallback = False, m_publishMQTT = False, m_isMQTTConnected = False,
      m_chunkedOTAEnabled = True, m_autoReset = True, m_chunkSize = MQTT_OTA_BUFFSIZE,
      m_otaInProgress = False, m_otaStartTime = 0, m_currentFirmwareVersion = [],
      m_currentProgress = 0, effects = []\<rparr>"

section \<open>Base64\<close>

text \<open>
  Modelled from the spec: the codec proper (\<^verbatim>\<open>base64_encode_block\<close>,
  \<^verbatim>\<open>base64_encode_blockend\<close> and \<^verbatim>\<open>base64_decode_block\<close> of libb64) belongs to the
  platform, not to this repository; the spec names it an external collaborator that
  decodes a string over \<^verbatim>\<open>[A-Za-z0-9+/=\r\n]\<close>. It is modelled as the standard
  Base64 alphabet with \<^verbatim>\<open>=\<close> padding and no line breaks, which is what the encoder
  wrapper sizes its buffer for (\<^verbatim>\<open>(inputLength + 2) / 3 * 4 + 1\<close>). As in libb64, the
  decoder skips every character outside the alphabet and returns the bytes completed
  so far. \<open>base64_encode_block\<close> stands for the block call followed by the block end.
\<close>

definition base64_encode_value :: "nat \<Rightarrow> char" where
  "base64_encode_value value_in =
     (if value_in < 26 then char_of (value_in + 65)
      else if value_in < 52 then char_of (value_in + 71)
      else if value_in < 62 then char_of (value_in - 4)
      else if value_in = 62 then CHR ''+''
      else if value_in = 63 then CHR ''/''
      else CHR ''='')"

definition base64_decode_value :: "char \<Rightarrow> nat option" where
  "base64_decode_value c =
     (let n = (of_char c :: nat) in
      if 65 \<le> n \<and> n \<le> 90 then Some (n - 65)
      else if 97 \<le> n \<and> n \<le> 122 then Some (n - 71)
      else if 48 \<le> n \<and> n \<le> 57 then Some (n + 4)
      else if n = 43 then Some 62
      else if n = 47 then Some 63
      else None)"

fun base64_encode_block :: "string \<Rightarrow> string" where
  "base64_encode_block (a # b # c # rest) =
     base64_encode_value (of_char a div 4)
     # base64_encode_value ((of_char a mod 4) * 16 + of_char b div 16)
     # base64_encode_value ((of_char b mod 16) * 4 + of_char c div 64)
     # base64_encode_value (of_char c mod 64)
     # base64_encode_block rest"
| "base64_encode_block [a, b] =
     [base64_encode_value (of_char a div 4),
      base64_encode_value ((of_char a mod 4) * 16 + of_char b div 16),
      base64_encode_value ((of_char b mod 16) * 4),
      CHR ''='']"
| "base64_encode_block [a] =
     [base64_encode_value (of_char a div 4),
      base64_encode_value ((of_char a mod 4) * 16),
      CHR ''='', CHR ''='']"
| "base64_encode_block [] = []"

fun decode_sextets :: "nat list \<Rightarrow> string" where
  "decode_sextets (p # q # r # t # rest) =
     char_of (p * 4 + q div 16)
     # char_of ((q mod 16) * 16 + r div 4)
     # char_of ((r mod 4) * 64 + t)
     # decode_sextets rest"
| "decode_sextets [p, q, r] =
     [char_of (p * 4 + q div 16), char_of ((q mod 16) * 16 + r div 4)]"
| "decode_sextets [p, q] = [char_of (p * 4 + q div 16)]"
| "decode_sextets [p] = []"
| "decode_sextets [] = []"

definition base64_decode_block :: "string \<Rightarrow> string" where
  "base64_decode_block code_in =
     decode_sextets (List.map_filter base64_decode_value code_in)"

text \<open>
  \<^verbatim>\<open>MQTTOTA::base64Decode\<close>. The low-heap branch only logs and yields. The lengths are
  those of strings held in the device's memory, far below \<open>2^31 / 3\<close>, so the
  \<^verbatim>\<open>int\<close> arithmetic on them is written on \<open>int\<close>.
\<close>

definition base64Decode :: "platform \<Rightarrow> string \<Rightarrow> string" where
  "base64Decode p encoded =
     (let encodedLength = int (length encoded);
          maxDecodedSize = (encodedLength * 3) div 4 + 2
      in if maxDecodedSize > 50000 then []
         else if \<not> mallocOk p then []
         else let buffer = base64_decode_block encoded;
                  count = length buffer
              in if count > 0 then buffer else [])"

text \<open>\<^verbatim>\<open>MQTTOTA::base64Encode\<close>.\<close>

definition base64Encode :: "platform \<Rightarrow> string \<Rightarrow> string" where
  "base64Encode p input =
     (if input = [] then []
      else if \<not> mallocOk p then []
      else base64_encode_block input)"

section \<open>Telemetry\<close>

text \<open>\<^verbatim>\<open>MQTTOTA::_publishError\<close>.\<close>

definition publishError :: "platform \<Rightarrow> ota_error \<Rightarrow> string \<Rightarrow> MQTTOTA \<Rightarrow> MQTTOTA" where
  "publishError p errorMessage version s =
     (let v = (if version = [] then m_firmwareVersion s else version);
          s1 = (if m_errorCallback s then emit (ErrorCallback errorMessage v) s else s)
      in if m_publishMQTT s1 \<and> m_isMQTTConnected s1 \<and> mqttConnected p
         then emit (MqttPublish ''ota/error'' (ErrorDoc (m_deviceID s1) v errorMessage)) s1
         else s1)"

text \<open>\<^verbatim>\<open>MQTTOTA::_publishSuccess\<close>.\<close>

definition publishSuccess :: "platform \<Rightarrow> string \<Rightarrow> MQTTOTA \<Rightarrow> MQTTOTA" where
  "publishSuccess p version s =
     (let s1 = (if m_successCallback s then emit (SuccessCallback version) s else s)
      in if m_publishMQTT s1 \<and> m_isMQTTConnected s1 \<and> mqttConnected p
         then emit (MqttPublish ''ota/success'' (SuccessDoc (m_deviceID s1) version)) s1
         else s1)"

text \<open>\<^verbatim>\<open>MQTTOTA::_publishProgress\<close>.\<close>

definition publishProgress :: "platform \<Rightarrow> i32 \<Rightarrow> string \<Rightarrow> MQTTOTA \<Rightarrow> MQTTOTA" where
  "publishProgress p progress version s =
     (let s0 = s\<lparr>m_currentProgress := progress\<rparr>;
          s1 = (if m_progressCallback s0 then emit (ProgressCallback progress version) s0 else s0)
      in if m_publishMQTT s1 \<and> m_isMQTTConnected s1 \<and> mqttConnected p
            \<and> (c_rem progress 10 = 0 \<or> progress = 100)
         then emit (MqttPublish ''ota/progress'' (ProgressDoc (m_deviceID s1) version progress)) s1
         else s1)"

text \<open>\<^verbatim>\<open>MQTTOTA::_publishStateChange\<close>.\<close>

definition publishStateChange :: "platform \<Rightarrow> OTAState \<Rightarrow> MQTTOTA \<Rightarrow> MQTTOTA" where
  "publishStateChange p st s =
     (let s1 = (if m_stateChangeCallback s then emit (StateChangeCallback st) s else s)
      in if m_publishMQTT s1 \<and> m_isMQTTConnected s1 \<and> mqttConnected p
         then emit (MqttPublish ''ota/state'' (StateDoc (m_deviceID s1) st)) s1
         else s1)"

text \<open>\<^verbatim>\<open>MQTTOTA::_setState\<close>.\<close>

definition setState :: "platform \<Rightarrow> OTAState \<Rightarrow> MQTTOTA \<Rightarrow> MQTTOTA" where
  "setState p st s =
     (if state (m_otaContext s) \<noteq> st
      then publishStateChange p st (ctx_update (\<lambda>c. c\<lparr>state := st\<rparr>) s)
      else s)"

section \<open>The chunked update (MQTTOTA.cpp)\<close>

text \<open>\<^verbatim>\<open>MQTTOTA::cleanup\<close>.\<close>

definition cleanup :: "MQTTOTA \<Rightarrow> MQTTOTA" where
  "cleanup s =
     s\<lparr>m_otaInProgress := False, m_currentProgress := 0, m_otaStartTime := 0,
       m_currentFirmwareVersion := []\<rparr>"

text \<open>\<^verbatim>\<open>MQTTOTA::_cleanupChunkedOTA\<close>.\<close>

definition cleanupChunkedOTA :: "MQTTOTA \<Rightarrow> MQTTOTA" where
  "cleanupChunkedOTA s =
     (let s1 = (if inProgress (m_otaContext s) \<and> update_handle (m_otaContext s) \<noteq> 0
                then emit (EspOtaAbort (update_handle (m_otaContext s))) s else s)
      in ctx_update (\<lambda>c. c\<lparr>inProgress := False, currentPart := 0, totalParts := 0,
                            receivedSize := 0, startTime := 0, update_handle := 0,
                            update_partition := None\<rparr>) s1)"

text \<open>
  \<^verbatim>\<open>MQTTOTA::_processImageHeader\<close>: only the length is tested, against the sizes of
  \<^verbatim>\<open>esp_image_header_t\<close> (24), \<^verbatim>\<open>esp_image_segment_header_t\<close> (8) and
  \<^verbatim>\<open>esp_app_desc_t\<close> (256) of ESP-IDF.
\<close>

definition processImageHeader :: "string \<Rightarrow> nat \<Rightarrow> bool" where
  "processImageHeader data data_len = (\<not> data_len < 24 + 8 + 256)"

text \<open>\<^verbatim>\<open>MQTTOTA::_startChunkedOTA\<close>.\<close>

definition startChunkedOTA :: "platform \<Rightarrow> OTAChunkData \<Rightarrow> MQTTOTA \<Rightarrow> bool \<times> MQTTOTA" where
  "startChunkedOTA p chunk s =
     (let s1 = ctx_update (\<lambda>c. c\<lparr>update_partition := ota_next_update_partition p\<rparr>) s
      in case ota_next_update_partition p of
           None \<Rightarrow> (False, publishError p NoOTAPartition (chunk_firmwareVersion chunk) s1)
         | Some part \<Rightarrow>
             let s2 = emit (EspOtaBegin part) s1;
                 err = fst (ota_begin p)
             in if err \<noteq> ESP_OK
                then (False, publishError p (BeginFailed err) (chunk_firmwareVersion chunk) s2)
                else
                  let s3 = ctx_update (\<lambda>c. c\<lparr>update_handle := snd (ota_begin p)\<rparr>) s2;
                      s4 = ctx_update (\<lambda>c. c\<lparr>inProgress := True,
                             firmwareVersion := chunk_firmwareVersion chunk,
                             currentPart := 0,
                             totalParts := chunk_totalParts chunk,
                             startTime := millis p,
                             receivedSize := 0\<rparr>) s3
                  in (True, publishProgress p 0 (chunk_firmwareVersion chunk) s4))"

text \<open>\<^verbatim>\<open>MQTTOTA::_processChunkData\<close>.\<close>

definition processChunkData :: "platform \<Rightarrow> OTAChunkData \<Rightarrow> MQTTOTA \<Rightarrow> bool \<times> MQTTOTA" where
  "processChunkData p chunk s =
     (if \<not> inProgress (m_otaContext s) \<or> update_handle (m_otaContext s) = 0
      then (False, publishError p NotStarted (chunk_firmwareVersion chunk) s)
      else
        let decodedData = base64Decode p (chunk_base64Part chunk)
        in if length decodedData = 0
           then (False, publishError p ChunkBase64Failed (chunk_firmwareVersion chunk) s)
           else if chunk_partIndex chunk = 1
                   \<and> \<not> processImageHeader decodedData (length decodedData)
           then (False, cleanupChunkedOTA
                   (publishError p BadHeaderFirstChunk (chunk_firmwareVersion chunk) s))
           else
             let s1 = emit (EspOtaWrite (update_handle (m_otaContext s)) decodedData) s;
                 err = ota_write p 0
             in if err \<noteq> ESP_OK
                then (False, publishError p (WriteChunkFailed err) (chunk_firmwareVersion chunk) s1)
                else (True, ctx_update (\<lambda>c. c\<lparr>receivedSize :=
                               receivedSize c + of_nat (length decodedData)\<rparr>) s1))"

text \<open>
  \<^verbatim>\<open>MQTTOTA::_completeChunkedOTA\<close>. \<^verbatim>\<open>ESP.restart()\<close> is recorded as the last effect;
  the object does not outlive it on the device.
\<close>

definition completeChunkedOTA :: "platform \<Rightarrow> OTAChunkData \<Rightarrow> MQTTOTA \<Rightarrow> MQTTOTA" where
  "completeChunkedOTA p chunk s =
     (if receivedSize (m_otaContext s) < 1000
      then cleanupChunkedOTA (publishError p FirmwareTooSmall (chunk_firmwareVersion chunk) s)
      else
        let s1 = publishProgress p 90 (chunk_firmwareVersion chunk) s;
            s2 = emit (EspOtaEnd (update_handle (m_otaContext s1))) s1;
            err = ota_end p
        in if err \<noteq> ESP_OK
           then cleanupChunkedOTA (publishError p (EndFailed err) (chunk_firmwareVersion chunk) s2)
           else
             let s3 = publishProgress p 95 (chunk_firmwareVersion chunk) s2;
                 s4 = emit (EspOtaSetBootPartition (update_partition (m_otaContext s3))) s3;
                 err2 = ota_set_boot_partition p
             in if err2 \<noteq> ESP_OK
                then cleanupChunkedOTA
                       (publishError p (SetBootFailed err2) (chunk_firmwareVersion chunk) s4)
                else
                  let s5 = publishProgress p 100 (chunk_firmwareVersion chunk) s4;
                      s6 = publishSuccess p (chunk_firmwareVersion chunk) s5
                  in emit EspRestart (emit (Delay 3000) s6))"

text \<open>
  \<^verbatim>\<open>MQTTOTA::_processOTAChunk\<close>. The result is \<open>None\<close> when the progress division
  has a zero divisor (\<^verbatim>\<open>TotalParts\<close> of 0).
\<close>

definition processOTAChunk :: "platform \<Rightarrow> json \<Rightarrow> MQTTOTA \<Rightarrow> MQTTOTA option" where
  "processOTAChunk p message s =
     (case message of
        JsonError \<Rightarrow> Some s
      | JsonDoc eventType details \<Rightarrow>
          if eventType \<noteq> Some ''UpdateFirmwareDevice'' then Some s
          else case details of
            None \<Rightarrow> Some s
          | Some d \<Rightarrow>
              let chunk = \<lparr>chunk_firmwareVersion = FirmwareVersion d,
                           chunk_base64Part = Base64Part d,
                           chunk_partIndex = PartIndex d,
                           chunk_totalParts = TotalParts d,
                           chunk_isError = IsError d,
                           chunk_errorMessage = ErrorMessage d\<rparr>
              in if chunk_isError chunk
                 then Some (cleanupChunkedOTA
                        (publishError p (ChunkReported (chunk_errorMessage chunk))
                           (chunk_firmwareVersion chunk) s))
                 else if chunk_base64Part chunk = [] \<or> chunk_firmwareVersion chunk = []
                 then Some (cleanupChunkedOTA
                        (publishError p ChunkIncomplete (chunk_firmwareVersion chunk) s))
                 else if chunk_partIndex chunk = 1 \<and> inProgress (m_otaContext s)
                 then Some s
                 else
                   let (started, s1) =
                         (if chunk_partIndex chunk = 1 then startChunkedOTA p chunk s
                          else (True, s))
                   in if \<not> started then Some s1
                      else if \<not> inProgress (m_otaContext s1)
                              \<or> chunk_partIndex chunk \<noteq> currentPart (m_otaContext s1) + 1
                      then Some (cleanupChunkedOTA
                             (publishError p ChunkOutOfSequence (chunk_firmwareVersion chunk) s1))
                      else
                        let (ok, s2) = processChunkData p chunk s1
                        in if \<not> ok then Some (cleanupChunkedOTA s2)
                           else
                             let s3 = ctx_update
                                        (\<lambda>c. c\<lparr>currentPart := chunk_partIndex chunk\<rparr>) s2
                             in case c_div (chunk_partIndex chunk * 100) (chunk_totalParts chunk) of
                                  None \<Rightarrow> None
                                | Some progress \<Rightarrow>
                                    let s4 = s3\<lparr>m_currentProgress := progress\<rparr>;
                                        s5 = publishProgress p progress
                                               (chunk_firmwareVersion chunk) s4
                                    in if chunk_partIndex chunk = chunk_totalParts chunk
                                       then Some (completeChunkedOTA p chunk s5)
                                       else Some s5)"

section \<open>The single-message update\<close>

definition isalnum :: "char \<Rightarrow> bool" where
  "isalnum c =
     (let n = (of_char c :: nat)
      in (48 \<le> n \<and> n \<le> 57) \<or> (65 \<le> n \<and> n \<le> 90) \<or> (97 \<le> n \<and> n \<le> 122))"

text \<open>
  \<^verbatim>\<open>MQTTOTA::_validateFirmwareData\<close>. The scan stops at the first character outside
  the accepted set; \<^verbatim>\<open>_publishError\<close> is called with its default (empty) version.
\<close>

definition validateFirmwareData :: "platform \<Rightarrow> string \<Rightarrow> MQTTOTA \<Rightarrow> bool \<times> MQTTOTA" where
  "validateFirmwareData p base64Data s =
     (if base64Data = [] then (False, publishError p EmptyFirmwareData [] s)
      else if length base64Data < 100 then (False, publishError p FirmwareDataTooShort [] s)
      else if \<exists>c \<in> set base64Data.
                \<not> isalnum c \<and> c \<noteq> CHR ''+'' \<and> c \<noteq> CHR ''/'' \<and> c \<noteq> CHR ''=''
                \<and> c \<noteq> CHR 0x0A \<and> c \<noteq> CHR 0x0D
      then (False, publishError p InvalidBase64Format [] s)
      else (True, s))"

text \<open>
  The write loop of \<^verbatim>\<open>MQTTOTA::_performOTAUpdateESPIDF\<close>: \<open>i\<close> and \<open>bytes_written\<close>
  are the loop's variables, \<open>k\<close> counts the calls of \<^verbatim>\<open>esp_ota_write\<close>. The
  \<^verbatim>\<open>size_t\<close> arithmetic wraps at \<open>2^32\<close>. With a chunk size of 0 the loop does not
  advance, so the function is partial: \<open>None\<close> is a run that does not return.
\<close>

partial_function (option) write_loop ::
  "platform \<Rightarrow> u32 \<Rightarrow> string \<Rightarrow> string \<Rightarrow> nat \<Rightarrow> nat \<Rightarrow> nat \<Rightarrow> nat \<Rightarrow> MQTTOTA
     \<Rightarrow> (bool \<times> MQTTOTA) option" where
  "write_loop p hdl decodedData version chunk_size i bytes_written k s =
     (if i < length decodedData then
        (if i = 0 \<and> \<not> processImageHeader decodedData (min chunk_size (length decodedData - i))
         then Some (False, publishError p BadHeader version (emit (EspOtaAbort hdl) s))
         else if ota_write p k \<noteq> ESP_OK
         then Some (False, publishError p (WriteFailed (ota_write p k)) version
                 (emit (EspOtaAbort hdl)
                   (emit (EspOtaWrite hdl
                      (take (min chunk_size (length decodedData - i)) (drop i decodedData))) s)))
         else
           write_loop p hdl decodedData version chunk_size
             ((i + chunk_size) mod 2 ^ 32)
             ((bytes_written + min chunk_size (length decodedData - i)) mod 2 ^ 32)
             (Suc k)
             (let s1 = emit (EspOtaWrite hdl
                         (take (min chunk_size (length decodedData - i)) (drop i decodedData))) s;
                  written = (bytes_written + min chunk_size (length decodedData - i)) mod 2 ^ 32;
                  progress = 25 + (written * 50 mod 2 ^ 32) div length decodedData
              in if ((written * 100 mod 2 ^ 32) div length decodedData) mod 10 = 0
                 then publishProgress p (if progress > 75 then 75 else of_nat progress) version s1
                 else s1))
      else Some (True, s))"

text \<open>\<^verbatim>\<open>MQTTOTA::_performOTAUpdateESPIDF\<close>, which \<^verbatim>\<open>performUpdate\<close> calls.\<close>

definition performOTAUpdateESPIDF ::
  "platform \<Rightarrow> string \<Rightarrow> string \<Rightarrow> MQTTOTA \<Rightarrow> (bool \<times> MQTTOTA) option" where
  "performOTAUpdateESPIDF p base64Data version s =
     (if freeHeap p < 50000 then Some (False, publishError p InsufficientMemory version s)
      else
        let decodedData = base64Decode p base64Data
        in if length decodedData = 0 then Some (False, publishError p Base64Failed version s)
           else case ota_next_update_partition p of
             None \<Rightarrow> Some (False, publishError p NoOTAPartition version s)
           | Some part \<Rightarrow>
               let s1 = emit (EspOtaBegin part) s
               in if fst (ota_begin p) \<noteq> ESP_OK
                  then Some (False, publishError p (BeginFailed (fst (ota_begin p))) version s1)
                  else
                    case write_loop p (snd (ota_begin p)) decodedData version
                           (unat (m_chunkSize s)) 0 0 0 (publishProgress p 25 version s1) of
                      None \<Rightarrow> None
                    | Some (False, s2) \<Rightarrow> Some (False, s2)
                    | Some (True, s2) \<Rightarrow>
                        let s3 = emit (EspOtaEnd (snd (ota_begin p)))
                                   (publishProgress p 75 version s2)
                        in if ota_end p \<noteq> ESP_OK
                           then Some (False, publishError p (EndFailed (ota_end p)) version s3)
                           else
                             let s4 = emit (EspOtaSetBootPartition (Some part)) s3
                             in if ota_set_boot_partition p \<noteq> ESP_OK
                                then Some (False, publishError p
                                       (SetBootFailed (ota_set_boot_partition p)) version s4)
                                else Some (True, publishProgress p 100 version s4))"

definition performUpdate ::
  "platform \<Rightarrow> string \<Rightarrow> string \<Rightarrow> MQTTOTA \<Rightarrow> (bool \<times> MQTTOTA) option" where
  "performUpdate p base64Data version s = performOTAUpdateESPIDF p base64Data version s"

text \<open>\<^verbatim>\<open>MQTTOTA::_processOTAMessage\<close>.\<close>

definition processOTAMessage :: "platform \<Rightarrow> json \<Rightarrow> MQTTOTA \<Rightarrow> MQTTOTA option" where
  "processOTAMessage p message s =
     (case message of
        JsonError \<Rightarrow> Some s
      | JsonDoc eventType details \<Rightarrow>
          if eventType \<noteq> Some ''UpdateFirmwareDevice'' then Some s
          else case details of
            None \<Rightarrow> Some s
          | Some d \<Rightarrow>
              if FirmwareVersion d = [] \<or> Base64 d = [] then Some s
              else case validateFirmwareData p (Base64 d) s of
                (False, s1) \<Rightarrow> Some s1
              | (True, s1) \<Rightarrow>
                  let s2 = s1\<lparr>m_otaInProgress := True, m_otaStartTime := millis_mono p,
                              m_currentFirmwareVersion := FirmwareVersion d\<rparr>;
                      s3 = publishProgress p 10 (FirmwareVersion d) s2
                  in case performUpdate p (Base64 d) (FirmwareVersion d) s3 of
                       None \<Rightarrow> None
                     | Some (True, s4) \<Rightarrow>
                         Some (emit EspRestart (emit (Delay 2000)
                                 (publishSuccess p (FirmwareVersion d) s4)))
                     | Some (False, s4) \<Rightarrow> Some (cleanup (s4\<lparr>m_otaInProgress := False\<rparr>)))"

section \<open>The public interface\<close>

text \<open>\<^verbatim>\<open>MQTTOTA::isUpdateInProgress\<close> and the other queries.\<close>

definition isUpdateInProgress :: "MQTTOTA \<Rightarrow> bool" where
  "isUpdateInProgress s = (m_otaInProgress s \<or> inProgress (m_otaContext s))"

definition getCurrentState :: "MQTTOTA \<Rightarrow> OTAState" where
  "getCurrentState s = state (m_otaContext s)"

definition isValidating :: "MQTTOTA \<Rightarrow> bool" where
  "isValidating s = (state (m_otaContext s) = OTA_STATE_VALIDATING)"

definition isWriting :: "MQTTOTA \<Rightarrow> bool" where
  "isWriting s = (state (m_otaContext s) = OTA_STATE_WRITING)"

definition getProgress :: "MQTTOTA \<Rightarrow> i32" where
  "getProgress s = m_currentProgress s"

text \<open>\<^verbatim>\<open>MQTTOTA::processMessage\<close>.\<close>

definition processMessage :: "platform \<Rightarrow> string \<Rightarrow> json \<Rightarrow> MQTTOTA \<Rightarrow> MQTTOTA option" where
  "processMessage p topic message s =
     (if topic \<noteq> m_otaTopic s then Some s
      else if isUpdateInProgress s then Some s
      else if freeHeap p < 30000 then Some s
      else if m_chunkedOTAEnabled s then processOTAChunk p message s
      else processOTAMessage p message s)"

text \<open>\<^verbatim>\<open>MQTTOTA::handle\<close>, the periodic handler.\<close>

definition handle :: "platform \<Rightarrow> MQTTOTA \<Rightarrow> MQTTOTA" where
  "handle p s =
     (let s1 = (if m_otaInProgress s \<and> millis_mono p - m_otaStartTime s > MQTT_OTA_TIMEOUT_MS
                then cleanup (publishError p TimeoutOTA (m_currentFirmwareVersion s) s)
                else s)
      in if inProgress (m_otaContext s1)
            \<and> millis p - startTime (m_otaContext s1) > MQTT_OTA_TIMEOUT_MS
         then cleanupChunkedOTA
                (publishError p TimeoutChunks (firmwareVersion (m_otaContext s1)) s1)
         else s1)"

text \<open>\<^verbatim>\<open>MQTTOTA::abortUpdate\<close>.\<close>

definition abortUpdate :: "platform \<Rightarrow> MQTTOTA \<Rightarrow> MQTTOTA" where
  "abortUpdate p s =
     (if isUpdateInProgress s
      then setState p OTA_STATE_ABORTED
             (cleanup (cleanupChunkedOTA
                (publishError p UserAbort (m_currentFirmwareVersion s) s)))
      else s)"

text \<open>The configuration methods (MQTTOTA.h and MQTTOTA.cpp).\<close>

definition setChunkSize :: "u32 \<Rightarrow> MQTTOTA \<Rightarrow> MQTTOTA" where
  "setChunkSize chunkSize s =
     s\<lparr>m_chunkSize := (if chunkSize > 0 \<and> chunkSize \<le> MQTT_OTA_MAX_CHUNK_SIZE
                       then chunkSize else MQTT_OTA_BUFFSIZE)\<rparr>"

definition setMaxRetries :: "i32 \<Rightarrow> MQTTOTA \<Rightarrow> MQTTOTA" where
  "setMaxRetries n s =
     ctx_update (\<lambda>c. c\<lparr>maxRetries := (if 0 <s n then n else MQTT_OTA_MAX_RETRIES)\<rparr>) s"

definition enableChunkedOTA :: "bool \<Rightarrow> MQTTOTA \<Rightarrow> MQTTOTA" where
  "enableChunkedOTA enable s = s\<lparr>m_chunkedOTAEnabled := enable\<rparr>"

definition setAutoReset :: "bool \<Rightarrow> MQTTOTA \<Rightarrow> MQTTOTA" where
  "setAutoReset autoReset s = s\<lparr>m_autoReset := autoReset\<rparr>"

definition enableRollbackProtection :: "bool \<Rightarrow> MQTTOTA \<Rightarrow> MQTTOTA" where
  "enableRollbackProtection enable s = ctx_update (\<lambda>c. c\<lparr>rollbackEnabled := enable\<rparr>) s"

definition enableVersionCheck :: "bool \<Rightarrow> MQTTOTA \<Rightarrow> MQTTOTA" where
  "enableVersionCheck enable s = ctx_update (\<lambda>c. c\<lparr>versionCheckEnabled := enable\<rparr>) s"

definition setPartitionName :: "string \<Rightarrow> MQTTOTA \<Rightarrow> MQTTOTA" where
  "setPartitionName name s = ctx_update (\<lambda>c. c\<lparr>partitionName := name\<rparr>) s"

definition begin_MQTTOTA :: "string \<Rightarrow> string \<Rightarrow> MQTTOTA \<Rightarrow> MQTTOTA" where
  "begin_MQTTOTA deviceName version s = s\<lparr>m_deviceName := deviceName, m_firmwareVersion := version\<rparr>"

definition setMQTTConfig :: "bool \<Rightarrow> bool \<Rightarrow> string \<Rightarrow> MQTTOTA \<Rightarrow> MQTTOTA" where
  "setMQTTConfig publishFunc isConnectedFunc otaTopic s =
     s\<lparr>m_publishMQTT := publishFunc, m_isMQTTConnected := isConnectedFunc, m_otaTopic := otaTopic\<rparr>"

definition onProgress :: "bool \<Rightarrow> MQTTOTA \<Rightarrow> MQTTOTA" where
  "onProgress callback s = s\<lparr>m_progressCallback := callback\<rparr>"

definition onError :: "bool \<Rightarrow> MQTTOTA \<Rightarrow> MQTTOTA" where
  "onError callback s = s\<lparr>m_errorCallback := callback\<rparr>"

definition onSuccess :: "bool \<Rightarrow> MQTTOTA \<Rightarrow> MQTTOTA" where
  "onSuccess callback s = s\<lparr>m_successCallback := callback\<rparr>"

definition onStateChange :: "bool \<Rightarrow> MQTTOTA \<Rightarrow> MQTTOTA" where
  "onStateChange callback s = s\<lparr>m_stateChangeCallback := callback\<rparr>"

text \<open>
  A call of a public method that can change the object, and its execution. The queries,
  the static utilities and the diagnostics change nothing and are not listed.
\<close>

datatype api_call =
    Begin string string
  | SetMQTTConfig bool bool string
  | SetPartitionName string
  | OnProgress bool
  | OnError bool
  | OnSuccess bool
  | OnStateChange bool
  | Handle
  | ProcessMessage string json
  | PerformUpdate string string
  | EnableChunkedOTA bool
  | SetChunkSize u32
  | SetAutoReset bool
  | SetMaxRetries i32
  | EnableRollbackProtection bool
  | EnableVersionCheck bool
  | Cleanup
  | AbortUpdate

fun api :: "platform \<Rightarrow> api_call \<Rightarrow> MQTTOTA \<Rightarrow> MQTTOTA option" where
  "api p (Begin deviceName version) s = Some (begin_MQTTOTA deviceName version s)"
| "api p (SetMQTTConfig f g t) s = Some (setMQTTConfig f g t s)"
| "api p (SetPartitionName n) s = Some (setPartitionName n s)"
| "api p (OnProgress cb) s = Some (onProgress cb s)"
| "api p (OnError cb) s = Some (onError cb s)"
| "api p (OnSuccess cb) s = Some (onSuccess cb s)"
| "api p (OnStateChange cb) s = Some (onStateChange cb s)"
| "api p Handle s = Some (handle p s)"
| "api p (ProcessMessage topic message) s = processMessage p topic message s"
| "api p (PerformUpdate base64Data version) s =
     map_option snd (performUpdate p base64Data version s)"
| "api p (EnableChunkedOTA b) s = Some (enableChunkedOTA b s)"
| "api p (SetChunkSize n) s = Some (setChunkSize n s)"
| "api p (SetAutoReset b) s = Some (setAutoReset b s)"
| "api p (SetMaxRetries n) s = Some (setMaxRetries n s)"
| "api p (EnableRollbackProtection b) s = Some (enableRollbackProtection b s)"
| "api p (EnableVersionCheck b) s = Some (enableVersionCheck b s)"
| "api p Cleanup s = Some (cleanup s)"
| "api p AbortUpdate s = Some (abortUpdate p s)"

text \<open>
  A run of the object: the calls made on it in order, each with what the platform
  answers during it. The run ends where a call does not return.
\<close>

fun run :: "(platform \<times> api_call) list \<Rightarrow> MQTTOTA \<Rightarrow> MQTTOTA option" where
  "run [] s = Some s"
| "run ((p, c) # cs) s = (case api p c s of None \<Rightarrow> None | Some s' \<Rightarrow> run cs s')"

section \<open>Notions used to state the properties\<close>

text \<open>The effects an operation added, given the object before and after it.\<close>

definition new_effects :: "MQTTOTA \<Rightarrow> MQTTOTA \<Rightarrow> effect list" where
  "new_effects s s' = drop (length (effects s)) (effects s')"

text \<open>What \<^verbatim>\<open>_publishError\<close>, \<^verbatim>\<open>_publishProgress\<close>, \<^verbatim>\<open>_publishSuccess\<close> and
  \<^verbatim>\<open>_publishStateChange\<close> emit: the callback if one is registered, then the publication
  if the transport is configured and connected.\<close>

definition mqtt_up :: "platform \<Rightarrow> MQTTOTA \<Rightarrow> bool" where
  "mqtt_up p s = (m_publishMQTT s \<and> m_isMQTTConnected s \<and> mqttConnected p)"

definition errorEvents :: "platform \<Rightarrow> ota_error \<Rightarrow> string \<Rightarrow> MQTTOTA \<Rightarrow> effect list" where
  "errorEvents p e version s =
     (if m_errorCallback s
      then [ErrorCallback e (if version = [] then m_firmwareVersion s else version)] else [])
     @ (if mqtt_up p s
        then [MqttPublish ''ota/error''
                (ErrorDoc (m_deviceID s) (if version = [] then m_firmwareVersion s else version) e)]
        else [])"

definition progressEvents :: "platform \<Rightarrow> i32 \<Rightarrow> string \<Rightarrow> MQTTOTA \<Rightarrow> effect list" where
  "progressEvents p progress version s =
     (if m_progressCallback s then [ProgressCallback progress version] else [])
     @ (if mqtt_up p s \<and> (c_rem progress 10 = 0 \<or> progress = 100)
        then [MqttPublish ''ota/progress'' (ProgressDoc (m_deviceID s) version progress)]
        else [])"

definition successEvents :: "platform \<Rightarrow> string \<Rightarrow> MQTTOTA \<Rightarrow> effect list" where
  "successEvents p version s =
     (if m_successCallback s then [SuccessCallback version] else [])
     @ (if mqtt_up p s then [MqttPublish ''ota/success'' (SuccessDoc (m_deviceID s) version)]
        else [])"

definition stateEvents :: "platform \<Rightarrow> OTAState \<Rightarrow> MQTTOTA \<Rightarrow> effect list" where
  "stateEvents p st s =
     (if m_stateChangeCallback s then [StateChangeCallback st] else [])
     @ (if mqtt_up p s then [MqttPublish ''ota/state'' (StateDoc (m_deviceID s) st)] else [])"

fun is_state_event :: "effect \<Rightarrow> bool" where
  "is_state_event (StateChangeCallback st) = True"
| "is_state_event (MqttPublish topic (StateDoc dev st)) = True"
| "is_state_event (MqttPublish topic doc) = (topic = ''ota/state'')"
| "is_state_event e = False"

fun is_write :: "effect \<Rightarrow> bool" where
  "is_write (EspOtaWrite h d) = True"
| "is_write e = False"

fun is_abort :: "effect \<Rightarrow> bool" where
  "is_abort (EspOtaAbort h) = True"
| "is_abort e = False"

fun is_end :: "effect \<Rightarrow> bool" where
  "is_end (EspOtaEnd h) = True"
| "is_end e = False"

fun is_set_boot :: "effect \<Rightarrow> bool" where
  "is_set_boot (EspOtaSetBootPartition q) = True"
| "is_set_boot e = False"

fun is_begin :: "effect \<Rightarrow> bool" where
  "is_begin (EspOtaBegin q) = True"
| "is_begin e = False"

fun is_success :: "effect \<Rightarrow> bool" where
  "is_success (SuccessCallback v) = True"
| "is_success (MqttPublish topic (SuccessDoc dev v)) = True"
| "is_success e = False"

text \<open>The idle values of the session record.\<close>

definition idle_values :: "OTAContext \<Rightarrow> bool" where
  "idle_values c =
     (\<not> inProgress c \<and> update_handle c = 0 \<and> update_partition c = None \<and> currentPart c = 0)"

text \<open>The session as an observer sees it: in progress, current part, pinned total,
  received bytes, writer handle.\<close>

definition session_view :: "MQTTOTA \<Rightarrow> bool \<times> i32 \<times> i32 \<times> u32 \<times> u32" where
  "session_view s =
     (inProgress (m_otaContext s), currentPart (m_otaContext s), totalParts (m_otaContext s),
      receivedSize (m_otaContext s), update_handle (m_otaContext s))"

text \<open>The envelope of a well-formed chunk, and messages handed to the chunk handler
  one after the other.\<close>

definition chunk_msg :: "string \<Rightarrow> string \<Rightarrow> i32 \<Rightarrow> i32 \<Rightarrow> json" where
  "chunk_msg version base64 part_index total_parts =
     JsonDoc (Some ''UpdateFirmwareDevice'')
       (Some \<lparr>FirmwareVersion = version, Base64Part = base64, PartIndex = part_index,
              TotalParts = total_parts, IsError = False, ErrorMessage = [], Base64 = []\<rparr>)"

fun deliver :: "platform \<Rightarrow> json list \<Rightarrow> MQTTOTA \<Rightarrow> MQTTOTA option" where
  "deliver p [] s = Some s"
| "deliver p (m # ms) s =
     (case processOTAChunk p m s of None \<Rightarrow> None | Some s' \<Rightarrow> deliver p ms s')"

text \<open>A chunk is accepted when the handler returns and has written the chunk to flash.\<close>

definition accepted :: "platform \<Rightarrow> json \<Rightarrow> MQTTOTA \<Rightarrow> bool" where
  "accepted p m s =
     (case processOTAChunk p m s of
        None \<Rightarrow> False
      | Some s' \<Rightarrow> list_ex is_write (new_effects s s'))"

text \<open>The state field is left alone between two points of a run: it has the same value,
  and the effects in between hold no state-change event.\<close>

definition state_untouched :: "MQTTOTA \<Rightarrow> MQTTOTA \<Rightarrow> bool" where
  "state_untouched s s' =
     (state (m_otaContext s') = state (m_otaContext s)
      \<and> take (length (effects s)) (effects s') = effects s
      \<and> \<not> list_ex is_state_event (new_effects s s'))"

text \<open>A platform on which nothing fails, a configured object with every callback
  registered, and a 400-byte image chunk with its Base64 text.\<close>

definition platform_ok :: platform where
  "platform_ok =
     \<lparr>freeHeap = 100000, mallocOk = True, mqttConnected = True, millis = 5000,
      millis_mono = 5000, ota_next_update_partition = Some 1, ota_begin = (ESP_OK, 7),
      ota_write = (\<lambda>k. ESP_OK), ota_end = ESP_OK, ota_set_boot_partition = ESP_OK\<rparr>"

definition device0 :: MQTTOTA where
  "device0 =
     onStateChange True (onSuccess True (onError True (onProgress True
       (setMQTTConfig True True ''ota''
          (begin_MQTTOTA ''sensor'' ''1.0.0'' (new_MQTTOTA ''A1B2C3D4E5F6''))))))"

definition image400 :: string where
  "image400 = replicate 400 (CHR 0xE9)"

definition part400 :: string where
  "part400 = base64Encode platform_ok image400"

definition image1000 :: string where
  "image1000 = replicate 1000 (CHR 0xE9)"

text \<open>The object after part 1 of 3 of version 2.0.0 has been accepted: the session is
  live at part 1 with 400 bytes written through handle 7.\<close>

definition session1 :: MQTTOTA where
  "session1 =
     device0\<lparr>m_otaContext := (m_otaContext device0)
         \<lparr>inProgress := True, firmwareVersion := ''2.0.0'', currentPart := 1,
          totalParts := 3, startTime := 5000, receivedSize := 400, update_handle := 7,
          update_partition := Some 1\<rparr>,
       m_currentProgress := 33,
       effects :=
         [EspOtaBegin 1,
          ProgressCallback 0 ''2.0.0'',
          MqttPublish ''ota/progress'' (ProgressDoc ''A1B2C3D4E5F6'' ''2.0.0'' 0),
          EspOtaWrite 7 image400,
          ProgressCallback 33 ''2.0.0'']\<rparr>"

section \<open>Properties of the Base64 wrappers\<close>

lemma decode_encode_value:
  "v < 64 \<Longrightarrow> base64_decode_value (base64_encode_value v) = Some v"
  by (auto simp: base64_encode_value_def base64_decode_value_def Let_def)

lemma decode_value_pad: "base64_decode_value (CHR ''='') = None"
  by (simp add: base64_decode_value_def)

lemma of_char_less_256: "of_char (c::char) < (256::nat)"
  by (metis of_char_mod_256 mod_less_divisor zero_less_numeral)

lemma small_parts:
  fixes y :: nat
  shows "y < 256 \<Longrightarrow> y div 16 < 16" and "y < 256 \<Longrightarrow> y div 64 < 4"
    and "y < 256 \<Longrightarrow> y div 4 < 64"
  by simp_all

lemma sextet_bounds:
  fixes a b c :: char
  shows "of_char a div 4 < (64::nat)"
    and "of_char a mod 4 * 16 + of_char b div 16 < (64::nat)"
    and "of_char b mod 16 * 4 + of_char c div 64 < (64::nat)"
    and "of_char c mod 64 < (64::nat)"
    and "of_char b mod 16 * 4 < (64::nat)"
    and "of_char a mod 4 * 16 < (64::nat)"
proof -
  have a: "of_char a < (256::nat)" and b: "of_char b < (256::nat)"
    and c: "of_char c < (256::nat)"
    by (rule of_char_less_256)+
  have a4: "of_char a mod 4 < (4::nat)" and b16: "of_char b mod 16 < (16::nat)"
    by simp_all
  have bd: "of_char b div 16 < (16::nat)" using b by (rule small_parts)
  have cd: "of_char c div 64 < (4::nat)" using c by (rule small_parts)
  show "of_char a div 4 < (64::nat)" using a by (rule small_parts)
  show "of_char a mod 4 * 16 + of_char b div 16 < (64::nat)" using a4 bd by linarith
  show "of_char b mod 16 * 4 + of_char c div 64 < (64::nat)" using b16 cd by linarith
  show "of_char c mod 64 < (64::nat)" by simp
  show "of_char b mod 16 * 4 < (64::nat)" using b16 by linarith
  show "of_char a mod 4 * 16 < (64::nat)" using a4 by linarith
qed

lemma divmod_pack:
  fixes m k :: nat
  shows "k < 16 \<Longrightarrow> (m * 16 + k) div 16 = m"
    and "k < 16 \<Longrightarrow> (m * 16 + k) mod 16 = k"
    and "k < 4 \<Longrightarrow> (m * 4 + k) div 4 = m"
    and "k < 4 \<Longrightarrow> (m * 4 + k) mod 4 = k"
    and "m * 16 div 16 = m"
    and "m * 4 div 4 = m"
  by simp_all

lemma repack_nat:
  fixes x y z :: nat
  assumes "x < 256" "y < 256" "z < 256"
  shows "x div 4 * 4 + (x mod 4 * 16 + y div 16) div 16 = x"
    and "(x mod 4 * 16 + y div 16) mod 16 * 16 + (y mod 16 * 4 + z div 64) div 4 = y"
    and "(y mod 16 * 4 + z div 64) mod 4 * 64 + z mod 64 = z"
    and "(x mod 4 * 16 + y div 16) mod 16 * 16 + (y mod 16 * 4) div 4 = y"
    and "x div 4 * 4 + (x mod 4 * 16) div 16 = x"
  using assms by (simp_all only: divmod_pack small_parts div_mult_mod_eq)

lemma repack:
  fixes a b c :: char
  shows "char_of (of_char a div 4 * 4 + (of_char a mod 4 * 16 + of_char b div 16) div 16 :: nat) = a"
    and "char_of ((of_char a mod 4 * 16 + of_char b div 16) mod 16 * 16
           + (of_char b mod 16 * 4 + of_char c div 64) div 4 :: nat) = b"
    and "char_of ((of_char b mod 16 * 4 + of_char c div 64) mod 4 * 64 + of_char c mod 64 :: nat) = c"
    and "char_of ((of_char a mod 4 * 16 + of_char b div 16) mod 16 * 16
           + (of_char b mod 16 * 4) div 4 :: nat) = b"
    and "char_of (of_char a div 4 * 4 + (of_char a mod 4 * 16) div 16 :: nat) = a"
  by (simp_all only: repack_nat [OF of_char_less_256 of_char_less_256 of_char_less_256]
      char_of_char)

lemma map_filter_value:
  "v < 64 \<Longrightarrow> List.map_filter base64_decode_value (base64_encode_value v # cs)
     = v # List.map_filter base64_decode_value cs"
  by (simp add: List.map_filter_simps decode_encode_value)

lemma map_filter_pad:
  "List.map_filter base64_decode_value (CHR ''='' # cs)
     = List.map_filter base64_decode_value cs"
  by (simp add: List.map_filter_simps decode_value_pad)

lemma map_filter_nil: "List.map_filter base64_decode_value [] = []"
  by (simp add: List.map_filter_simps)

lemma decode_encode_block: "base64_decode_block (base64_encode_block x) = x"
proof (induction x rule: base64_encode_block.induct)
  case (1 a b c rest)
  then show ?case
    by (simp only: base64_decode_block_def base64_encode_block.simps map_filter_value
        sextet_bounds decode_sextets.simps repack)
next
  case (2 a b)
  show ?case
    by (simp only: base64_decode_block_def base64_encode_block.simps map_filter_value
        map_filter_pad map_filter_nil sextet_bounds decode_sextets.simps repack)
next
  case (3 a)
  show ?case
    by (simp only: base64_decode_block_def base64_encode_block.simps map_filter_value
        map_filter_pad map_filter_nil sextet_bounds decode_sextets.simps repack)
next
  case 4
  show ?case
    by (simp only: base64_decode_block_def base64_encode_block.simps map_filter_nil
        decode_sextets.simps)
qed

lemma length_encode_block: "length (base64_encode_block x) = 4 * ((length x + 2) div 3)"
proof (induction x rule: base64_encode_block.induct)
  case (1 a b c rest)
  have "(length (a # b # c # rest) + 2) div 3 = (length rest + 2) div 3 + 1" by simp
  with 1 show ?case by simp
qed simp_all

lemma base64_roundtrip:
  assumes "mallocOk p" and "length x \<le> 49998"
  shows "base64Decode p (base64Encode p x) = x"
proof (cases "x = []")
  case True
  then show ?thesis
    by (simp add: base64Decode_def base64Encode_def base64_decode_block_def map_filter_nil)
next
  case False
  have "(length x + 2) div 3 \<le> 16666" using assms(2) by simp
  then have "int (length (base64_encode_block x)) * 3 div 4 + 2 \<le> 50000"
    by (simp add: length_encode_block)
  with False assms(1) show ?thesis
    by (simp add: base64Decode_def base64Encode_def decode_encode_block Let_def)
qed

lemma base64_ceiling:
  assumes "49998 < length x"
  shows "base64Decode p (base64Encode p x) = []"
proof (cases "mallocOk p")
  case False
  then show ?thesis by (simp add: base64Decode_def base64Encode_def Let_def base64_decode_block_def map_filter_nil)
next
  case True
  from assms have "x \<noteq> []" by auto
  have "16667 \<le> (length x + 2) div 3" using assms by simp
  then have "50000 < int (length (base64_encode_block x)) * 3 div 4 + 2"
    by (simp add: length_encode_block)
  with True \<open>x \<noteq> []\<close> show ?thesis
    by (simp add: base64Decode_def base64Encode_def Let_def)
qed

text \<open>
  C8 (as amended). The decoder refuses an input when \<^verbatim>\<open>(encodedLength * 3) / 4 + 2\<close>
  exceeds 50,000, so the round trip through \<open>base64Encode\<close> and \<open>base64Decode\<close>
  returns the byte string for every length up to 49,998 (when both buffers can be
  allocated), and the empty string for every longer one, 49,999 and 50,000 included.
\<close>

theorem C8_roundtrip_up_to_49998:
  "(mallocOk p \<and> length x \<le> 49998 \<longrightarrow> base64Decode p (base64Encode p x) = x)
   \<and> (49998 < length x \<longrightarrow> base64Decode p (base64Encode p x) = [])"
  using base64_roundtrip [of p x] base64_ceiling [of x p] by blast

theorem C8_roundtrip_witness:
  "base64Decode platform_ok (base64Encode platform_ok ''firmware'') = ''firmware''
   \<and> base64Decode platform_ok (base64Encode platform_ok (replicate 49999 (CHR ''a''))) = []"
  using C8_roundtrip_up_to_49998 [of platform_ok "''firmware''"]
    C8_roundtrip_up_to_49998 [of platform_ok "replicate 49999 (CHR ''a'')"]
  by (simp add: platform_ok_def)

text \<open>
  C8 as stated fails at length 50,000: the encoding has 66,668 characters, the
  decoder computes 50,003 and returns the empty string.
\<close>

theorem C8_length_50000_rejected:
  "base64Decode platform_ok (base64Encode platform_ok (replicate 50000 (CHR ''a'')))
     \<noteq> replicate 50000 (CHR ''a'')"
  by (simp add: base64_ceiling)

section \<open>Configuration\<close>

text \<open>
  C9 (as amended). The chunk size is 1024 after construction; \<open>setChunkSize\<close> stores a
  requested size between 1 and 65,536, and sets the chunk size back to the default
  1024 for a requested size of 0 or above 65,536.
\<close>

theorem C9_setChunkSize:
  "m_chunkSize (new_MQTTOTA dev) = 1024
   \<and> (0 < n \<and> n \<le> 65536 \<longrightarrow> m_chunkSize (setChunkSize n s) = n)
   \<and> (n = 0 \<or> 65536 < n \<longrightarrow> m_chunkSize (setChunkSize n s) = 1024)"
  by (auto simp: setChunkSize_def new_MQTTOTA_def MQTT_OTA_BUFFSIZE_def
      MQTT_OTA_MAX_CHUNK_SIZE_def)

theorem C9_setChunkSize_witness:
  "m_chunkSize (setChunkSize 4096 device0) = 4096
   \<and> m_chunkSize (setChunkSize 65536 device0) = 65536
   \<and> m_chunkSize (setChunkSize 0 device0) = 1024"
  using C9_setChunkSize [of "''x''" 4096 device0] C9_setChunkSize [of "''x''" 65536 device0]
    C9_setChunkSize [of "''x''" 0 device0]
  by simp

text \<open>C9 as stated fails above the maximum: a request of 70,000 bytes is not capped
  at 65,536 but replaced by 1024.\<close>

theorem C9_above_maximum_not_capped:
  "m_chunkSize (setChunkSize 70000 device0) = 1024
   \<and> m_chunkSize (setChunkSize 70000 device0) \<noteq> 65536"
  by (simp add: setChunkSize_def MQTT_OTA_BUFFSIZE_def MQTT_OTA_MAX_CHUNK_SIZE_def)

end
